theory Spec2Isabelle
  imports Main
begin

section \<open>Data model\<close>

text \<open>
  The records follow the object shapes of \<^verbatim>\<open>src/index.tsx\<close>. Field names are the
  source's, except where two shapes share a field name or the name is taken in HOL:
  the \<^verbatim>\<open>id\<close> of an appointment is \<open>app_id\<close>, the \<^verbatim>\<open>id\<close> of a notification is
  \<open>note_id\<close>, the \<^verbatim>\<open>name\<close> of a therapy is \<open>therapy_name\<close>. Numbers that the code only
  uses as integers (\<^verbatim>\<open>Date.now()\<close>, ids, ratings) are \<open>int\<close>. An optional field is an
  \<open>option\<close>, with \<open>None\<close> for the absent field.
\<close>

datatype status = Upcoming | Confirmed | Completed

record therapy =
  therapy_name :: string
  duration :: int
  image :: string

text \<open>
  The object built by \<^verbatim>\<open>handleFinishBooking\<close> and passed to \<^verbatim>\<open>bookAppointment\<close> has the
  fields of an \<^verbatim>\<open>Appointment\<close> without \<^verbatim>\<open>id\<close> and \<^verbatim>\<open>status\<close>; the appointment extends it.
\<close>

record draft =
  therapies :: "therapy list"
  date :: string
  time :: string
  bookedAt :: string
  centerRating :: "int option"

record appointment = draft +
  app_id :: int
  status :: "status option"

text \<open>
  The age of the user that \<^verbatim>\<open>_initializeDB\<close> stores is a number; the age of a user made
  by \<^verbatim>\<open>createAccount\<close> is the text of the form field.
\<close>

datatype age_value = AgeNumber int | AgeText string

record details =
  name :: string
  age :: age_value
  email :: string
  condition :: string

record medical_history =
  pastConditions :: string
  previousTreatments :: string
  allergies :: string

record vitals =
  wellnessScore :: int
  bloodPressure :: string
  heartRate :: string
  sleepQuality :: string

record analytics =
  treatmentCompletion :: int
  totalSessions :: int
  completedSessions :: int
  remainingSessions :: int
  weeklyPerformance :: "(string \<times> int) list"
  vitals :: vitals

record user =
  mobileNumber :: string
  password :: string
  details :: details
  medicalHistory :: medical_history
  appointments :: "appointment list option"
  analytics :: analytics

text \<open>
  \<^verbatim>\<open>localStorage\<close> holds one item, \<^verbatim>\<open>'users'\<close>, the JSON text of an object from mobile
  number to user record; \<open>users_item\<close> is that object (\<open>None\<close> when the item is not
  there). Writing the object and reading it back (\<^verbatim>\<open>JSON.stringify\<close>, \<^verbatim>\<open>JSON.parse\<close>)
  returns the same data, so the model keeps the object itself. A mobile number is looked
  up among the keys the object holds itself; a name that every JavaScript object
  inherits, such as \<^verbatim>\<open>toString\<close>, is not a mobile number of the model. \<^verbatim>\<open>sessionStorage\<close>
  is a map from key to string value.
\<close>

type_synonym users_db = "string \<rightharpoonup> user"

record storage =
  users_item :: "users_db option"
  session :: "string \<rightharpoonup> string"

section \<open>The mock backend: apiService\<close>

text \<open>\<^verbatim>\<open>_initializeDB\<close>, which runs when the script is loaded.\<close>

definition defaultUser :: user where
  "defaultUser =
     \<lparr>mobileNumber = ''1234567890'', password = ''password'',
      details = \<lparr>name = ''Mr Guna'', age = AgeNumber 45, email = ''mr.guna@example.com'',
                 condition = ''Chronic Back Pain''\<rparr>,
      medicalHistory = \<lparr>pastConditions = ''Sciatica, Mild Hypertension'',
                        previousTreatments = ''Physical Therapy'', allergies = ''None''\<rparr>,
      appointments = Some [],
      analytics = \<lparr>treatmentCompletion = 75, totalSessions = 12, completedSessions = 9,
                   remainingSessions = 3,
                   weeklyPerformance = [(''Week 1'', 30), (''Week 2'', 50), (''Week 3'', 40),
                                        (''Week 4'', 60)],
                   vitals = \<lparr>wellnessScore = 82, bloodPressure = ''120/80'',
                             heartRate = ''72 bpm'', sleepQuality = ''7h 30m''\<rparr>\<rparr>\<rparr>"

definition initializeDB :: "storage \<Rightarrow> storage" where
  "initializeDB s =
     (case users_item s of
        None \<Rightarrow> s\<lparr>users_item := Some [''1234567890'' \<mapsto> defaultUser]\<rparr>
      | Some users \<Rightarrow> s)"

text \<open>\<^verbatim>\<open>JSON.parse(localStorage.getItem('users') || '{}')\<close>\<close>

definition parse_users :: "storage \<Rightarrow> users_db" where
  "parse_users s = (case users_item s of None \<Rightarrow> Map.empty | Some users \<Rightarrow> users)"

definition getCurrentUserMobileNumber :: "storage \<Rightarrow> string option" where
  "getCurrentUserMobileNumber s = session s ''currentUser''"

text \<open>JavaScript truthiness of a value that is \<^verbatim>\<open>null\<close> or a string: only \<^verbatim>\<open>null\<close> and
  the empty string are falsy.\<close>

definition truthy :: "string option \<Rightarrow> bool" where
  "truthy v = (case v of None \<Rightarrow> False | Some str \<Rightarrow> str \<noteq> [])"

definition getAppointments :: "storage \<Rightarrow> appointment list" where
  "getAppointments s =
     (let mobileNumber = getCurrentUserMobileNumber s in
      if \<not> truthy mobileNumber then []
      else (case parse_users s (the mobileNumber) of
              None \<Rightarrow> []
            | Some u \<Rightarrow> (case appointments u of None \<Rightarrow> [] | Some apps \<Rightarrow> apps)))"

text \<open>
  A property access on \<^verbatim>\<open>undefined\<close> throws a \<^verbatim>\<open>TypeError\<close>: \<^verbatim>\<open>bookAppointment\<close> reads
  \<^verbatim>\<open>users[mobileNumber].appointments.push\<close> without a check.
\<close>

datatype error = TypeError

text \<open>The object \<^verbatim>\<open>{...appointment, id: Date.now(), status: 'upcoming'}\<close>.\<close>

definition newAppointmentWithMeta :: "draft \<Rightarrow> int \<Rightarrow> appointment" where
  "newAppointmentWithMeta d now =
     \<lparr>therapies = therapies d, date = date d, time = time d, bookedAt = bookedAt d,
      centerRating = centerRating d, app_id = now, status = Some Upcoming\<rparr>"

definition bookAppointment :: "draft \<Rightarrow> int \<Rightarrow> storage \<Rightarrow> error + (bool \<times> storage)" where
  "bookAppointment appointment now s =
     (let mobileNumber = getCurrentUserMobileNumber s in
      if \<not> truthy mobileNumber then Inr (False, s)
      else
        let users = parse_users s in
           (case users (the mobileNumber) of
              None \<Rightarrow> Inl TypeError
            | Some u \<Rightarrow>
                (case appointments u of
                   None \<Rightarrow> Inl TypeError
                 | Some apps \<Rightarrow>
                     Inr (True, s\<lparr>users_item := Some (users(the mobileNumber \<mapsto>
                            u\<lparr>appointments :=
                              Some (apps @ [newAppointmentWithMeta appointment now])\<rparr>))\<rparr>))))"

text \<open>\<^verbatim>\<open>Array.prototype.findIndex\<close>, with \<open>None\<close> for the result \<^verbatim>\<open>-1\<close>.\<close>

fun findIndex :: "('a \<Rightarrow> bool) \<Rightarrow> 'a list \<Rightarrow> nat option" where
  "findIndex P [] = None"
| "findIndex P (x # xs) = (if P x then Some 0 else map_option Suc (findIndex P xs))"

definition updateAppointmentStatus :: "int \<Rightarrow> status \<Rightarrow> storage \<Rightarrow> bool \<times> storage" where
  "updateAppointmentStatus appointmentId newStatus s =
     (let mobileNumber = getCurrentUserMobileNumber s in
      if \<not> truthy mobileNumber then (False, s)
      else
        let users = parse_users s in
        (case users (the mobileNumber) of
           None \<Rightarrow> (False, s)
         | Some u \<Rightarrow>
             (case appointments u of
                None \<Rightarrow> (False, s)
              | Some apps \<Rightarrow>
                  (case findIndex (\<lambda>app. app_id app = appointmentId) apps of
                     None \<Rightarrow> (False, s)
                   | Some appointmentIndex \<Rightarrow>
                       (True, s\<lparr>users_item := Some (users(the mobileNumber \<mapsto>
                          u\<lparr>appointments := Some (apps[appointmentIndex :=
                               (apps ! appointmentIndex)\<lparr>status := Some newStatus\<rparr>])\<rparr>))\<rparr>)))))"

text \<open>\<^verbatim>\<open>apiService.login\<close>: the result is the user summary on success, \<open>None\<close> on failure.\<close>

definition login :: "string \<Rightarrow> string \<Rightarrow> storage \<Rightarrow> (string \<times> string) option \<times> storage" where
  "login mobile pw s =
     (case parse_users s mobile of
        None \<Rightarrow> (None, s)
      | Some u \<Rightarrow>
          if password u = pw
          then (Some (name (details u), mobileNumber u),
                s\<lparr>session := (session s)(''currentUser'' \<mapsto> mobile)\<rparr>)
          else (None, s))"

text \<open>The form data of the account page, all of it text.\<close>

record form_data =
  form_name :: string
  form_age :: string
  form_email :: string
  form_mobileNumber :: string
  form_password :: string
  form_condition :: string
  form_pastConditions :: string
  form_previousTreatments :: string
  form_allergies :: string

definition newUser :: "form_data \<Rightarrow> user" where
  "newUser userData =
     \<lparr>mobileNumber = form_mobileNumber userData, password = form_password userData,
      details = \<lparr>name = form_name userData, age = AgeText (form_age userData),
                 email = form_email userData, condition = form_condition userData\<rparr>,
      medicalHistory = \<lparr>pastConditions = form_pastConditions userData,
                        previousTreatments = form_previousTreatments userData,
                        allergies = form_allergies userData\<rparr>,
      appointments = Some [],
      analytics = \<lparr>treatmentCompletion = 0, totalSessions = 0, completedSessions = 0,
                   remainingSessions = 0, weeklyPerformance = [],
                   vitals = \<lparr>wellnessScore = 70, bloodPressure = ''N/A'',
                             heartRate = ''N/A'', sleepQuality = ''N/A''\<rparr>\<rparr>\<rparr>"

definition createAccount :: "form_data \<Rightarrow> storage \<Rightarrow> (string \<times> string) option \<times> storage" where
  "createAccount userData s =
     (let users = parse_users s in
      case users (form_mobileNumber userData) of
        Some u \<Rightarrow> (None, s)
      | None \<Rightarrow>
          (Some (name (details (newUser userData)), mobileNumber (newUser userData)),
           s\<lparr>users_item := Some (users(form_mobileNumber userData \<mapsto> newUser userData)),
             session := (session s)(''currentUser'' \<mapsto> form_mobileNumber userData)\<rparr>))"

text \<open>\<^verbatim>\<open>updatePatientDetails\<close>; its argument is the pair of the details and the medical
  history. It writes to \<^verbatim>\<open>users[mobileNumber]\<close> without a check.\<close>

definition updatePatientDetails :: "details \<times> medical_history \<Rightarrow> storage \<Rightarrow> error + (bool \<times> storage)" where
  "updatePatientDetails updatedDetails s =
     (let mobileNumber = getCurrentUserMobileNumber s in
      if \<not> truthy mobileNumber then Inr (False, s)
      else
        let users = parse_users s in
        (case users (the mobileNumber) of
           None \<Rightarrow> Inl TypeError
         | Some u \<Rightarrow>
             Inr (True, s\<lparr>users_item := Some (users(the mobileNumber \<mapsto>
                    u\<lparr>details := fst updatedDetails,
                      medicalHistory := snd updatedDetails\<rparr>))\<rparr>)))"

section \<open>The reminder selection\<close>

text \<open>
  The session marker of an appointment is the \<^verbatim>\<open>sessionStorage\<close> item with the key
  \<^verbatim>\<open>`reminded_${app.id}`\<close>. An integer id is rendered in decimal, as JavaScript does
  for every integer below \<open>10\<^sup>2\<^sup>1\<close> in absolute value.
\<close>

definition digit_char :: "nat \<Rightarrow> char" where
  "digit_char d = ''0123456789'' ! d"

fun decimal :: "nat \<Rightarrow> string" where
  "decimal n = (if n < 10 then [digit_char n] else decimal (n div 10) @ [digit_char (n mod 10)])"

declare decimal.simps [simp del]

definition number_toString :: "int \<Rightarrow> string" where
  "number_toString i = (if i < 0 then CHR ''-'' # decimal (nat (- i)) else decimal (nat i))"

definition reminded_key :: "int \<Rightarrow> string" where
  "reminded_key i = ''reminded_'' @ number_toString i"

text \<open>\<^verbatim>\<open>str.replace(/-/g, '/')\<close>\<close>

definition replace_hyphens :: "string \<Rightarrow> string" where
  "replace_hyphens str = map (\<lambda>c. if c = CHR ''-'' then CHR ''/'' else c) str"

text \<open>
  \<^verbatim>\<open>new Date(text)\<close> is the platform's parser and a parameter \<open>newDate\<close> of the model:
  it gives the time value in milliseconds, or \<open>None\<close> for an \<^verbatim>\<open>Invalid Date\<close>, whose
  time value \<^verbatim>\<open>NaN\<close> makes every comparison false. \<open>now\<close> is the time value of
  \<^verbatim>\<open>new Date()\<close>.
\<close>

definition date_gt :: "int option \<Rightarrow> int \<Rightarrow> bool" where
  "date_gt appDate now = (case appDate of None \<Rightarrow> False | Some t \<Rightarrow> now < t)"

text \<open>The constant \<^verbatim>\<open>upcoming\<close> of \<^verbatim>\<open>checkUpcomingAppointments\<close>: the result of
  \<^verbatim>\<open>appointments.find\<close>.\<close>

definition upcomingReminder :: "(string \<Rightarrow> int option) \<Rightarrow> int \<Rightarrow> storage \<Rightarrow> appointment option" where
  "upcomingReminder newDate now s =
     find (\<lambda>app.
        let appDate = newDate (replace_hyphens (date app));
            reminded = session s (reminded_key (app_id app))
        in status app = Some Upcoming \<and> date_gt appDate now \<and> \<not> truthy reminded)
       (getAppointments s)"

text \<open>
  The three conditions of the specification on an appointment that may be surfaced:
  its status is \<^verbatim>\<open>upcoming\<close>, its date is strictly after now, and the session holds no
  marker for its id (an item that is absent or empty is no marker).
\<close>

definition eligible :: "(string \<Rightarrow> int option) \<Rightarrow> int \<Rightarrow> storage \<Rightarrow> appointment \<Rightarrow> bool" where
  "eligible newDate now s a \<longleftrightarrow>
     status a = Some Upcoming \<and>
     (case newDate (replace_hyphens (date a)) of None \<Rightarrow> False | Some t \<Rightarrow> now < t) \<and>
     session s (reminded_key (app_id a)) \<in> {None, Some []}"

section \<open>The App component\<close>

datatype page = Home | Analysis | Schedule | History | Settings | Profile

datatype auth_status = Welcome | Login | CreateAccount | LoggedIn

record notification =
  note_id :: int
  message :: string

text \<open>
  The state of \<^verbatim>\<open>App\<close>: its \<^verbatim>\<open>useState\<close> cells, the two browser stores, and the
  pending \<^verbatim>\<open>setTimeout\<close> callbacks of \<^verbatim>\<open>addNotification\<close>, each as the pair of its due
  time and the id it removes. One clock serves \<^verbatim>\<open>Date.now()\<close> and the timers.
\<close>

record app_state =
  authStatus :: auth_status
  currentUser :: "(string \<times> string) option"
  currentPage :: page
  previousPage :: page
  isChatbotOpen :: bool
  notifications :: "notification list"
  reminderAppointment :: "appointment option"
  timers :: "(int \<times> int) list"
  store :: storage

definition checkUpcomingAppointments :: "(string \<Rightarrow> int option) \<Rightarrow> int \<Rightarrow> app_state \<Rightarrow> app_state" where
  "checkUpcomingAppointments newDate now a =
     (case upcomingReminder newDate now (store a) of
        None \<Rightarrow> a
      | Some upcoming \<Rightarrow> a\<lparr>reminderAppointment := Some upcoming\<rparr>)"

definition addNotification :: "string \<Rightarrow> int \<Rightarrow> app_state \<Rightarrow> app_state" where
  "addNotification msg now a =
     a\<lparr>notifications := notifications a @ [\<lparr>note_id = now, message = msg\<rparr>],
       timers := timers a @ [(now + 3000, now)]\<rparr>"

text \<open>The timer callback \<^verbatim>\<open>prev => prev.filter(n => n.id !== id)\<close>.\<close>

definition expire :: "int \<Rightarrow> notification list \<Rightarrow> notification list" where
  "expire i prev = filter (\<lambda>n. note_id n \<noteq> i) prev"

text \<open>The clock reaches \<open>t\<close>: every pending callback that is due runs, in the order of
  registration, and leaves the list of pending timers.\<close>

definition fireTimers :: "int \<Rightarrow> app_state \<Rightarrow> app_state" where
  "fireTimers t a =
     a\<lparr>notifications := fold expire (map snd (filter (\<lambda>(due, i). due \<le> t) (timers a)))
                          (notifications a),
       timers := filter (\<lambda>(due, i). \<not> due \<le> t) (timers a)\<rparr>"

definition handleNavigate :: "page \<Rightarrow> app_state \<Rightarrow> app_state" where
  "handleNavigate pg a =
     (if pg \<noteq> currentPage a then a\<lparr>previousPage := currentPage a, currentPage := pg\<rparr> else a)"

text \<open>
  The three reminder handlers are straight-line code after their guard. Each statement
  is a \<open>stmt\<close>, so that the order of the effects can be stated: \<open>states_after\<close> lists the
  state after each statement. The result of \<^verbatim>\<open>updateAppointmentStatus\<close> is dropped, as
  \<^verbatim>\<open>handleConfirmReminder\<close> drops it.
\<close>

datatype stmt =
    UpdateAppointmentStatus int status
  | SetItemReminded int
  | AddNotification string int
  | HandleNavigate page
  | SetReminderAppointment "appointment option"

fun exec :: "stmt \<Rightarrow> app_state \<Rightarrow> app_state" where
  "exec (UpdateAppointmentStatus i st) a =
     a\<lparr>store := snd (updateAppointmentStatus i st (store a))\<rparr>"
| "exec (SetItemReminded i) a =
     a\<lparr>store := (store a)\<lparr>session := (session (store a))(reminded_key i \<mapsto> ''true'')\<rparr>\<rparr>"
| "exec (AddNotification msg now) a = addNotification msg now a"
| "exec (HandleNavigate pg) a = handleNavigate pg a"
| "exec (SetReminderAppointment r) a = a\<lparr>reminderAppointment := r\<rparr>"

fun states_after :: "stmt list \<Rightarrow> app_state \<Rightarrow> app_state list" where
  "states_after [] a = []"
| "states_after (c # cs) a = exec c a # states_after cs (exec c a)"

definition run :: "stmt list \<Rightarrow> app_state \<Rightarrow> app_state" where
  "run cs a = fold exec cs a"

definition confirm_body :: "int \<Rightarrow> appointment \<Rightarrow> stmt list" where
  "confirm_body now r =
     [UpdateAppointmentStatus (app_id r) Confirmed,
      SetItemReminded (app_id r),
      AddNotification ''Appointment Confirmed!'' now,
      SetReminderAppointment None]"

definition reschedule_body :: "appointment \<Rightarrow> stmt list" where
  "reschedule_body r =
     [SetItemReminded (app_id r), HandleNavigate Schedule, SetReminderAppointment None]"

definition dismiss_body :: "appointment \<Rightarrow> stmt list" where
  "dismiss_body r = [SetItemReminded (app_id r), SetReminderAppointment None]"

definition handleConfirmReminder :: "int \<Rightarrow> app_state \<Rightarrow> app_state" where
  "handleConfirmReminder now a =
     (case reminderAppointment a of None \<Rightarrow> a | Some r \<Rightarrow> run (confirm_body now r) a)"

definition handleRescheduleReminder :: "app_state \<Rightarrow> app_state" where
  "handleRescheduleReminder a =
     (case reminderAppointment a of None \<Rightarrow> a | Some r \<Rightarrow> run (reschedule_body r) a)"

definition handleDismissReminder :: "app_state \<Rightarrow> app_state" where
  "handleDismissReminder a =
     (case reminderAppointment a of None \<Rightarrow> a | Some r \<Rightarrow> run (dismiss_body r) a)"

text \<open>
  The events of the application: what the user can do in each view, the reload of the
  page, and the firing of the timers. A handler runs only while its control is rendered:
  the login form while \<open>authStatus\<close> is \<open>Login\<close>, the account form while it is
  \<open>CreateAccount\<close>, everything else in the logged-in view, on the page that shows the
  control. \<open>Reload\<close> is a reload of the page in the same tab: the script runs again, the
  component state starts again and the pending timers are gone, \<^verbatim>\<open>localStorage\<close> and
  \<^verbatim>\<open>sessionStorage\<close> stay. \<open>HandleLogin\<close> and \<open>HandleCreateAccount\<close> are the two form
  handlers followed, on success, by the success callback and by the effect on
  \<^verbatim>\<open>[authStatus]\<close>, which runs the reminder selection at the instant \<open>now\<close>.
  \<open>FinishBooking\<close> is the call of \<^verbatim>\<open>bookAppointment\<close> by the scheduling page, with any
  draft, followed on success by \<^verbatim>\<open>onBookingComplete\<close>; \<open>ProfileSave\<close> is \<^verbatim>\<open>handleSave\<close> of
  the profile page. Where a handler reads the clock twice, the event carries both
  instants.
\<close>

datatype event =
    Reload
  | NavigateToLogin
  | NavigateToCreateAccount
  | AuthBack
  | HandleLogin string string int
  | HandleCreateAccount form_data int int
  | ConfirmReminder int
  | RescheduleReminder
  | DismissReminder
  | SosClick int
  | NavigateTo page
  | NavigateBack
  | OpenChat
  | CloseChat
  | FinishBooking draft int int
  | ProfileSave "details \<times> medical_history" int
  | TimersFire int

definition initial_app :: "storage \<Rightarrow> app_state" where
  "initial_app s =
     \<lparr>authStatus = Welcome, currentUser = None, currentPage = Home, previousPage = Home,
      isChatbotOpen = False, notifications = [], reminderAppointment = None, timers = [],
      store = s\<rparr>"

definition handleLogin :: "(string \<Rightarrow> int option) \<Rightarrow> string \<Rightarrow> string \<Rightarrow> int \<Rightarrow> app_state \<Rightarrow> app_state" where
  "handleLogin newDate mobile pw now a =
     (case login mobile pw (store a) of
        (None, s') \<Rightarrow> a\<lparr>store := s'\<rparr>
      | (Some u, s') \<Rightarrow>
          checkUpcomingAppointments newDate now
            (a\<lparr>currentUser := Some u, authStatus := LoggedIn, store := s'\<rparr>))"

text \<open>\<^verbatim>\<open>str.trim() === ''\<close>, on the ASCII white space.\<close>

definition blank :: "string \<Rightarrow> bool" where
  "blank str = (\<forall>c \<in> set str. c \<in> set [CHR 0x09, CHR 0x0A, CHR 0x0B, CHR 0x0C, CHR 0x0D, CHR '' ''])"

definition form_values :: "form_data \<Rightarrow> string list" where
  "form_values f =
     [form_name f, form_age f, form_email f, form_mobileNumber f, form_password f,
      form_condition f, form_pastConditions f, form_previousTreatments f, form_allergies f]"

definition handleCreateSuccess :: "string \<times> string \<Rightarrow> int \<Rightarrow> app_state \<Rightarrow> app_state" where
  "handleCreateSuccess u now a =
     (addNotification (''Welcome, '' @ fst u @ ''!'') now a)
       \<lparr>currentUser := Some u, authStatus := LoggedIn\<rparr>"

definition handleCreateAccount :: "(string \<Rightarrow> int option) \<Rightarrow> form_data \<Rightarrow> int \<Rightarrow> int \<Rightarrow> app_state \<Rightarrow> app_state" where
  "handleCreateAccount newDate formData now now' a =
     (if \<exists>v \<in> set (form_values formData). blank v then a
      else (case createAccount formData (store a) of
              (None, s') \<Rightarrow> a\<lparr>store := s'\<rparr>
            | (Some u, s') \<Rightarrow>
                checkUpcomingAppointments newDate now'
                  (handleCreateSuccess u now (a\<lparr>store := s'\<rparr>))))"

definition onBookingComplete :: "int \<Rightarrow> app_state \<Rightarrow> app_state" where
  "onBookingComplete now a =
     (addNotification ''Appointment booked successfully!'' now a)\<lparr>currentPage := History\<rparr>"

definition finishBooking :: "draft \<Rightarrow> int \<Rightarrow> int \<Rightarrow> app_state \<Rightarrow> app_state" where
  "finishBooking d now now' a =
     (case bookAppointment d now (store a) of
        Inl e \<Rightarrow> a
      | Inr (success, s') \<Rightarrow>
          if success then onBookingComplete now' (a\<lparr>store := s'\<rparr>) else a\<lparr>store := s'\<rparr>)"

definition handleSave :: "details \<times> medical_history \<Rightarrow> int \<Rightarrow> app_state \<Rightarrow> app_state" where
  "handleSave editableDetails now a =
     (case updatePatientDetails editableDetails (store a) of
        Inl e \<Rightarrow> a
      | Inr (success, s') \<Rightarrow>
          addNotification
            (if success then ''Profile saved successfully!'' else ''Failed to save profile.'')
            now (a\<lparr>store := s'\<rparr>))"

text \<open>The pages of the bottom navigation bar.\<close>

definition navItems :: "page list" where
  "navItems = [Home, Analysis, Schedule, History, Settings]"

fun app_step :: "(string \<Rightarrow> int option) \<Rightarrow> event \<Rightarrow> app_state \<Rightarrow> app_state" where
  "app_step newDate Reload a = initial_app (initializeDB (store a))"
| "app_step newDate NavigateToLogin a =
     (if authStatus a = Welcome then a\<lparr>authStatus := Login\<rparr> else a)"
| "app_step newDate NavigateToCreateAccount a =
     (if authStatus a = Welcome then a\<lparr>authStatus := CreateAccount\<rparr> else a)"
| "app_step newDate AuthBack a =
     (if authStatus a = Login \<or> authStatus a = CreateAccount then a\<lparr>authStatus := Welcome\<rparr>
      else a)"
| "app_step newDate (HandleLogin mobile pw now) a =
     (if authStatus a = Login then handleLogin newDate mobile pw now a else a)"
| "app_step newDate (HandleCreateAccount formData now now') a =
     (if authStatus a = CreateAccount then handleCreateAccount newDate formData now now' a
      else a)"
| "app_step newDate (ConfirmReminder now) a =
     (if authStatus a = LoggedIn then handleConfirmReminder now a else a)"
| "app_step newDate RescheduleReminder a =
     (if authStatus a = LoggedIn then handleRescheduleReminder a else a)"
| "app_step newDate DismissReminder a =
     (if authStatus a = LoggedIn then handleDismissReminder a else a)"
| "app_step newDate (SosClick now) a =
     (if authStatus a = LoggedIn \<and> currentPage a = Home
      then addNotification ''SOS Alert Sent! A practitioner has been notified.'' now a else a)"
| "app_step newDate (NavigateTo pg) a =
     (if authStatus a = LoggedIn \<and> (pg \<in> set navItems \<or> pg = Profile \<and> currentPage a = Home)
      then handleNavigate pg a else a)"
| "app_step newDate NavigateBack a =
     (if authStatus a = LoggedIn \<and> currentPage a \<noteq> Home
      then a\<lparr>currentPage := previousPage a\<rparr> else a)"
| "app_step newDate OpenChat a =
     (if authStatus a = LoggedIn \<and> currentPage a = Home then a\<lparr>isChatbotOpen := True\<rparr>
      else a)"
| "app_step newDate CloseChat a =
     (if authStatus a = LoggedIn \<and> isChatbotOpen a then a\<lparr>isChatbotOpen := False\<rparr> else a)"
| "app_step newDate (FinishBooking d now now') a =
     (if authStatus a = LoggedIn \<and> currentPage a = Schedule then finishBooking d now now' a
      else a)"
| "app_step newDate (ProfileSave editableDetails now) a =
     (if authStatus a = LoggedIn \<and> currentPage a = Profile then handleSave editableDetails now a
      else a)"
| "app_step newDate (TimersFire t) a = fireTimers t a"

definition app_run :: "(string \<Rightarrow> int option) \<Rightarrow> event list \<Rightarrow> app_state \<Rightarrow> app_state" where
  "app_run newDate evs a = fold (app_step newDate) evs a"

text \<open>
  The link between the notifications on screen and the pending timers: every entry has
  its timer, and every timer is due \<open>3000\<close> after the instant that is its id.
\<close>

definition timers_cover :: "app_state \<Rightarrow> bool" where
  "timers_cover a \<longleftrightarrow>
     (\<forall>n \<in> set (notifications a). (note_id n + 3000, note_id n) \<in> set (timers a)) \<and>
     (\<forall>d \<in> set (timers a). fst d = snd d + 3000)"

text \<open>
  The marker that the three reminder handlers write for the appointment with the id \<open>i\<close>,
  and the state of a session in which that appointment is resolved: the marker is
  there and the reminder on screen, if any, is for another id.
\<close>

definition marked_reminded :: "storage \<Rightarrow> int \<Rightarrow> bool" where
  "marked_reminded s i \<longleftrightarrow> session s (reminded_key i) = Some ''true''"

definition resolved :: "int \<Rightarrow> app_state \<Rightarrow> bool" where
  "resolved i a \<longleftrightarrow>
     marked_reminded (store a) i \<and> (\<forall>b. reminderAppointment a = Some b \<longrightarrow> app_id b \<noteq> i)"

section \<open>The scheduling page\<close>

definition ALL_THERAPIES :: "therapy list" where
  "ALL_THERAPIES =
     [\<lparr>therapy_name = ''KARAMA'', duration = 45,
       image = ''https://img.freepik.com/free-photo/ayurveda-spa-treatment-still-life_23-2150910087.jpg''\<rparr>,
      \<lparr>therapy_name = ''ENEMA'', duration = 60,
       image = ''https://img.freepik.com/free-photo/beautiful-spa-composition-wooden-background_1150-19253.jpg''\<rparr>,
      \<lparr>therapy_name = ''VIRECHANA'', duration = 40,
       image = ''https://img.freepik.com/free-photo/spa-treatment-with-herbal-compress-balls-rose-petals-oil_1150-13793.jpg''\<rparr>,
      \<lparr>therapy_name = ''VAMANA'', duration = 25,
       image = ''https://img.freepik.com/free-photo/ayurveda-spa-treatment-still-life_23-2150910085.jpg''\<rparr>,
      \<lparr>therapy_name = ''BASTI'', duration = 50,
       image = ''https://img.freepik.com/free-photo/natural-ayurvedic-medicine-still-life_23-2150910129.jpg''\<rparr>,
      \<lparr>therapy_name = ''VASTI'', duration = 55,
       image = ''https://img.freepik.com/free-photo/ayurveda-spa-treatment-still-life_23-2150910091.jpg''\<rparr>]"

definition time_slots :: "string list" where
  "time_slots = [''8:00am'', ''10:00am'', ''12:00pm'', ''1:00pm'', ''3:00pm'', ''5:00pm'']"

text \<open>
  The state of \<^verbatim>\<open>SchedulingPage\<close>; its cell \<^verbatim>\<open>centerRating\<close> is \<open>rating\<close> here. \<open>alerts\<close>
  collects the texts passed to \<^verbatim>\<open>alert\<close>.
\<close>

record sched_state =
  step :: nat
  selectedTherapies :: "therapy list"
  selectedDate :: string
  selectedTime :: string
  rating :: int
  showConfirmation :: bool
  isBooking :: bool
  alerts :: "string list"

definition initial_sched :: sched_state where
  "initial_sched =
     \<lparr>step = 1, selectedTherapies = [], selectedDate = [], selectedTime = [], rating = 0,
      showConfirmation = False, isBooking = False, alerts = []\<rparr>"

definition toggleTherapy :: "therapy \<Rightarrow> sched_state \<Rightarrow> sched_state" where
  "toggleTherapy t p =
     p\<lparr>selectedTherapies :=
         (case find (\<lambda>x. therapy_name x = therapy_name t) (selectedTherapies p) of
            Some x \<Rightarrow> filter (\<lambda>x. therapy_name x \<noteq> therapy_name t) (selectedTherapies p)
          | None \<Rightarrow> selectedTherapies p @ [t])\<rparr>"

definition handleNextStep :: "sched_state \<Rightarrow> sched_state" where
  "handleNextStep p =
     (if step p = 1 \<and> length (selectedTherapies p) > 0 then p\<lparr>step := 2\<rparr> else p)"

definition handleBookNow :: "sched_state \<Rightarrow> sched_state" where
  "handleBookNow p =
     (if selectedDate p \<noteq> [] \<and> selectedTime p \<noteq> [] then p\<lparr>showConfirmation := True\<rparr>
      else p\<lparr>alerts := alerts p @ [''Please select a date and time.'']\<rparr>)"

definition handleConfirmBooking :: "sched_state \<Rightarrow> sched_state" where
  "handleConfirmBooking p = p\<lparr>showConfirmation := False, step := 3\<rparr>"

text \<open>
  \<^verbatim>\<open>handleFinishBooking\<close>, with \<open>stamp\<close> the text of \<^verbatim>\<open>new Date().toISOString()\<close>. When
  \<^verbatim>\<open>bookAppointment\<close> throws, the rest of the handler does not run and \<open>isBooking\<close> stays
  set.
\<close>

definition handleFinishBooking :: "int \<Rightarrow> string \<Rightarrow> sched_state \<times> storage \<Rightarrow> sched_state \<times> storage" where
  "handleFinishBooking now stamp ps =
     (let p = fst ps; s = snd ps;
          newAppointment =
            \<lparr>therapies = selectedTherapies p, date = selectedDate p, time = selectedTime p,
             bookedAt = stamp, centerRating = Some (rating p)\<rparr>
      in case bookAppointment newAppointment now s of
           Inl e \<Rightarrow> (p\<lparr>isBooking := True\<rparr>, s)
         | Inr (success, s') \<Rightarrow>
             (p\<lparr>isBooking := False,
                alerts := (if success then alerts p
                           else alerts p @ [''Failed to book appointment.''])\<rparr>, s'))"

text \<open>
  The events of the page. \<open>enabled\<close> is \<^verbatim>\<open>renderStep\<close> and the confirmation modal: which
  controls are on screen in a state and not \<^verbatim>\<open>disabled\<close>. \<open>isoDate\<close> is the platform
  function \<^verbatim>\<open>day => new Date(2025, 8, day).toISOString().split('T')[0]\<close>. \<open>Remount\<close> is
  the user leaving the page and coming back: the component starts again.
\<close>

datatype sched_event =
    ToggleTherapy therapy
  | NextStep
  | DateSelect nat
  | TimeSelect string
  | BookNow
  | ConfirmBooking
  | CancelBooking
  | Rating int
  | FinishBookingClick int string
  | Remount

fun enabled :: "sched_event \<Rightarrow> sched_state \<Rightarrow> bool" where
  "enabled (ToggleTherapy t) p = (step p = 1 \<and> t \<in> set ALL_THERAPIES)"
| "enabled NextStep p = (step p = 1 \<and> \<not> length (selectedTherapies p) = 0)"
| "enabled (DateSelect day) p = (step p = 2 \<and> 1 \<le> day \<and> day \<le> 30)"
| "enabled (TimeSelect t) p = (step p = 2 \<and> t \<in> set time_slots)"
| "enabled BookNow p = (step p = 2 \<and> \<not> (selectedDate p = [] \<or> selectedTime p = []))"
| "enabled ConfirmBooking p = showConfirmation p"
| "enabled CancelBooking p = showConfirmation p"
| "enabled (Rating r) p = (step p = 3 \<and> 1 \<le> r \<and> r \<le> 5)"
| "enabled (FinishBookingClick now stamp) p = (step p = 3 \<and> \<not> (isBooking p \<or> rating p = 0))"
| "enabled Remount p = True"

fun handler :: "(nat \<Rightarrow> string) \<Rightarrow> sched_event \<Rightarrow> sched_state \<times> storage \<Rightarrow> sched_state \<times> storage" where
  "handler isoDate (ToggleTherapy t) (p, s) = (toggleTherapy t p, s)"
| "handler isoDate NextStep (p, s) = (handleNextStep p, s)"
| "handler isoDate (DateSelect day) (p, s) = (p\<lparr>selectedDate := isoDate day\<rparr>, s)"
| "handler isoDate (TimeSelect t) (p, s) = (p\<lparr>selectedTime := t\<rparr>, s)"
| "handler isoDate BookNow (p, s) = (handleBookNow p, s)"
| "handler isoDate ConfirmBooking (p, s) = (handleConfirmBooking p, s)"
| "handler isoDate CancelBooking (p, s) = (p\<lparr>showConfirmation := False\<rparr>, s)"
| "handler isoDate (Rating r) (p, s) = (p\<lparr>rating := r\<rparr>, s)"
| "handler isoDate (FinishBookingClick now stamp) (p, s) = handleFinishBooking now stamp (p, s)"
| "handler isoDate Remount (p, s) = (initial_sched, s)"

definition sched_step :: "(nat \<Rightarrow> string) \<Rightarrow> sched_event \<Rightarrow> sched_state \<times> storage \<Rightarrow> sched_state \<times> storage" where
  "sched_step isoDate ev ps = (if enabled ev (fst ps) then handler isoDate ev ps else ps)"

definition sched_run :: "(nat \<Rightarrow> string) \<Rightarrow> sched_event list \<Rightarrow> sched_state \<times> storage \<Rightarrow> sched_state \<times> storage" where
  "sched_run isoDate evs ps = fold (sched_step isoDate) evs ps"

text \<open>
  What every reachable state of the page satisfies: past the first step a therapy is
  selected, the confirmation modal is open on the second step only, and on the first
  step no alert has been shown. And the
  relation between the store at the start and a later store: every appointment of the
  current user that was not there at the start has a therapy.
\<close>

definition sched_inv :: "sched_state \<Rightarrow> bool" where
  "sched_inv p \<longleftrightarrow>
     (step p \<noteq> 1 \<longrightarrow> selectedTherapies p \<noteq> []) \<and> (showConfirmation p \<longrightarrow> step p = 2) \<and>
     (step p = 1 \<longrightarrow> alerts p = [])"

definition written_nonempty :: "storage \<Rightarrow> storage \<Rightarrow> bool" where
  "written_nonempty s0 s \<longleftrightarrow>
     (\<forall>a \<in> set (getAppointments s). a \<in> set (getAppointments s0) \<or> therapies a \<noteq> [])"

section \<open>Example data\<close>

text \<open>
  A store holding the default user with a given appointment list, and a stand-in for
  the platform's date parser that knows two days: the day after and the day before the
  instant \<open>1000\<close>.
\<close>

definition example_store :: "appointment list \<Rightarrow> (string \<rightharpoonup> string) \<Rightarrow> storage" where
  "example_store apps sess =
     \<lparr>users_item = Some [''1234567890'' \<mapsto> defaultUser\<lparr>appointments := Some apps\<rparr>],
      session = sess\<rparr>"

definition example_session :: "string \<rightharpoonup> string" where
  "example_session = [''currentUser'' \<mapsto> ''1234567890'']"

definition example_appointment :: "int \<Rightarrow> string \<Rightarrow> status option \<Rightarrow> appointment" where
  "example_appointment i d st =
     \<lparr>therapies = [hd ALL_THERAPIES], date = d, time = ''8:00am'',
      bookedAt = ''2025-09-01T08:00:00.000Z'', centerRating = Some 5, app_id = i, status = st\<rparr>"

definition example_newDate :: "string \<Rightarrow> int option" where
  "example_newDate str =
     (if str = ''2025/09/02'' then Some 2000 else if str = ''2025/08/31'' then Some 0 else None)"

definition example_list :: "appointment list" where
  "example_list =
     [example_appointment 2 ''2025-08-31'' (Some Upcoming),
      example_appointment 1 ''2025-09-02'' (Some Upcoming),
      example_appointment 3 ''2025-09-02'' (Some Upcoming)]"

definition example_draft :: draft where
  "example_draft =
     \<lparr>therapies = [hd ALL_THERAPIES], date = ''2025-09-02'', time = ''10:00am'',
      bookedAt = ''2025-09-01T09:00:00.000Z'', centerRating = Some 4\<rparr>"

definition example_events :: "event list" where
  "example_events =
     [NavigateToLogin, HandleLogin ''1234567890'' ''password'' 1000, SosClick 1500]"

definition example_stale_reminder :: app_state where
  "example_stale_reminder =
     (initial_app (example_store [] example_session))
       \<lparr>authStatus := LoggedIn, currentUser := Some (''Mr Guna'', ''1234567890''),
        reminderAppointment := Some (example_appointment 5 ''2025-09-02'' (Some Upcoming))\<rparr>"

definition example_two :: "appointment list" where
  "example_two =
     [example_appointment 5 ''2025-09-02'' (Some Upcoming),
      example_appointment 7 ''2025-09-02'' (Some Upcoming)]"

definition example_login :: "event list" where
  "example_login = [NavigateToLogin, HandleLogin ''1234567890'' ''password'' 1000]"

definition example_reminder_shown :: app_state where
  "example_reminder_shown =
     app_run example_newDate example_login (initial_app (example_store example_two Map.empty))"

definition example_isoDate :: "nat \<Rightarrow> string" where
  "example_isoDate day = (if day = 2 then ''2025-09-02'' else ''2025-09-01'')"

definition example_booking :: "sched_event list" where
  "example_booking =
     [ToggleTherapy (hd ALL_THERAPIES), NextStep, DateSelect 2, TimeSelect ''10:00am'', BookNow,
      ConfirmBooking, Rating 4, FinishBookingClick 2000 ''2025-09-01T09:00:00.000Z'']"

lemmas example_defs = example_store_def example_session_def example_appointment_def
  defaultUser_def example_newDate_def

lemmas api_defs = getAppointments_def getCurrentUserMobileNumber_def truthy_def parse_users_def

section \<open>Facts about the model\<close>

subsection \<open>Lists, the current user's collection, the selection\<close>

lemma findIndex_None_iff: "findIndex P xs = None \<longleftrightarrow> (\<forall>x\<in>set xs. \<not> P x)"
  by (induction xs) auto

lemma findIndex_Some: "findIndex P xs = Some i \<Longrightarrow> i < length xs \<and> P (xs ! i) \<and> (\<forall>j<i. \<not> P (xs ! j))"
proof (induction xs arbitrary: i)
  case Nil then show ?case by simp
next
  case (Cons x xs)
  then show ?case
    by (auto split: if_splits simp: nth_Cons split: nat.splits)
qed

lemma findIndex_status_update:
  "findIndex (\<lambda>app. app_id app = k) (xs[i := (xs ! i)\<lparr>status := st\<rparr>]) = findIndex (\<lambda>app. app_id app = k) xs"
proof (induction xs arbitrary: i)
  case Nil then show ?case by simp
next
  case (Cons x xs)
  then show ?case by (cases i) auto
qed

lemma getAppointments_nonempty:
  "getAppointments s \<noteq> [] \<Longrightarrow>
   truthy (getCurrentUserMobileNumber s) \<and>
   (\<exists>u. parse_users s (the (getCurrentUserMobileNumber s)) = Some u \<and>
        appointments u = Some (getAppointments s))"
  by (auto simp: getAppointments_def Let_def split: if_splits option.splits)

lemma upcomingReminder_eligible:
  "upcomingReminder newDate now s = find (eligible newDate now s) (getAppointments s)"
proof -
  have "(\<lambda>app. let appDate = newDate (replace_hyphens (date app));
                    reminded = session s (reminded_key (app_id app))
                in status app = Some Upcoming \<and> date_gt appDate now \<and> \<not> truthy reminded)
        = eligible newDate now s"
    by (auto simp: fun_eq_iff eligible_def Let_def date_gt_def truthy_def split: option.splits)
  then show ?thesis by (simp add: upcomingReminder_def)
qed

lemma reminded_key_1: "reminded_key 1 = ''reminded_1''"
  by (simp add: reminded_key_def number_toString_def decimal.simps digit_char_def)

lemma reminded_key_5: "reminded_key 5 = ''reminded_5''"
  by (simp add: reminded_key_def number_toString_def decimal.simps digit_char_def)

lemma reminded_key_7: "reminded_key 7 = ''reminded_7''"
  by (simp add: reminded_key_def number_toString_def decimal.simps digit_char_def)

subsection \<open>Notifications and their timers\<close>

lemma fold_expire: "fold expire ids ns = filter (\<lambda>n. note_id n \<notin> set ids) ns"
proof (induction ids arbitrary: ns)
  case Nil then show ?case by simp
next
  case (Cons i ids)
  have "fold expire (i # ids) ns = filter (\<lambda>n. note_id n \<notin> set ids) (expire i ns)"
    by (simp only: fold_simps Cons.IH)
  also have "\<dots> = filter (\<lambda>n. note_id n \<notin> set (i # ids)) ns"
    unfolding expire_def filter_filter by (rule filter_cong) auto
  finally show ?case .
qed

lemma timers_cover_same:
  "timers_cover a \<Longrightarrow> notifications b = notifications a \<Longrightarrow> timers b = timers a \<Longrightarrow>
   timers_cover b"
  by (simp add: timers_cover_def)

lemma timers_cover_initial: "timers_cover (initial_app s)"
  by (simp add: timers_cover_def initial_app_def)

lemma timers_cover_addNotification:
  "timers_cover a \<Longrightarrow> timers_cover (addNotification msg now a)"
  by (auto simp: timers_cover_def addNotification_def)

lemma fireTimers_notifications:
  assumes "timers_cover a"
  shows "notifications (fireTimers t a) = filter (\<lambda>n. t < note_id n + 3000) (notifications a)"
proof -
  have "note_id n \<notin> set (map snd (filter (\<lambda>(due, i). due \<le> t) (timers a))) \<longleftrightarrow> t < note_id n + 3000"
    if "n \<in> set (notifications a)" for n
  proof
    assume l: "note_id n \<notin> set (map snd (filter (\<lambda>(due, i). due \<le> t) (timers a)))"
    from assms that have "(note_id n + 3000, note_id n) \<in> set (timers a)"
      by (simp add: timers_cover_def)
    with l show "t < note_id n + 3000" by force
  next
    assume r: "t < note_id n + 3000"
    from assms have "\<forall>d \<in> set (timers a). fst d = snd d + 3000"
      by (simp add: timers_cover_def)
    with r show "note_id n \<notin> set (map snd (filter (\<lambda>(due, i). due \<le> t) (timers a)))"
      by force
  qed
  then show ?thesis
    by (simp add: fireTimers_def fold_expire cong: filter_cong)
qed

lemma timers_cover_fireTimers:
  assumes "timers_cover a"
  shows "timers_cover (fireTimers t a)"
proof -
  have n: "notifications (fireTimers t a) = filter (\<lambda>n. t < note_id n + 3000) (notifications a)"
    using assms by (rule fireTimers_notifications)
  have ts: "timers (fireTimers t a) = filter (\<lambda>(due, i). \<not> due \<le> t) (timers a)"
    by (simp add: fireTimers_def)
  from assms show ?thesis
    unfolding timers_cover_def n ts by auto
qed

lemma timers_cover_exec:
  assumes "timers_cover a"
  shows "timers_cover (exec c a)"
proof (cases c)
  case (AddNotification msg now)
  with assms show ?thesis by (simp add: timers_cover_addNotification)
next
  case (HandleNavigate pg)
  then show ?thesis by (simp add: assms handleNavigate_def timers_cover_same [OF assms])
next
  case (UpdateAppointmentStatus i st)
  then show ?thesis by (simp add: timers_cover_same [OF assms])
next
  case (SetItemReminded i)
  then show ?thesis by (simp add: timers_cover_same [OF assms])
next
  case (SetReminderAppointment r)
  then show ?thesis by (simp add: timers_cover_same [OF assms])
qed

lemma run_notifications_cover:
  "timers_cover a \<Longrightarrow> timers_cover (run cs a)"
proof (induction cs arbitrary: a)
  case Nil then show ?case by (simp add: run_def)
next
  case (Cons c cs)
  from Cons.prems have "timers_cover (exec c a)" by (rule timers_cover_exec)
  from Cons.IH [OF this] show ?case by (simp add: run_def)
qed

lemma timers_cover_checkUpcoming:
  "timers_cover a \<Longrightarrow> timers_cover (checkUpcomingAppointments newDate now a)"
  by (cases "upcomingReminder newDate now (store a)")
     (simp_all add: checkUpcomingAppointments_def timers_cover_def)

lemma timers_cover_step:
  assumes "timers_cover a"
  shows "timers_cover (app_step newDate ev a)"
proof (cases ev)
  case Reload
  then show ?thesis by (simp add: timers_cover_initial)
next
  case (HandleLogin m pw now)
  have "timers_cover (handleLogin newDate m pw now a)"
  proof (cases "login m pw (store a)")
    case (Pair r s')
    show ?thesis
    proof (cases r)
      case None
      with Pair show ?thesis
        by (simp add: handleLogin_def timers_cover_same [OF assms])
    next
      case (Some u)
      have "timers_cover (a\<lparr>currentUser := Some u, authStatus := LoggedIn, store := s'\<rparr>)"
        by (rule timers_cover_same [OF assms]) simp_all
      then show ?thesis
        using Pair Some by (simp add: handleLogin_def timers_cover_checkUpcoming)
    qed
  qed
  with assms HandleLogin show ?thesis by simp
next
  case (HandleCreateAccount f now now')
  have "timers_cover (handleCreateAccount newDate f now now' a)"
  proof (cases "createAccount f (store a)")
    case (Pair r s')
    have st: "timers_cover (a\<lparr>store := s'\<rparr>)"
      by (rule timers_cover_same [OF assms]) simp_all
    show ?thesis
    proof (cases r)
      case None
      with Pair assms st show ?thesis by (simp add: handleCreateAccount_def)
    next
      case (Some u)
      have "timers_cover (handleCreateSuccess u now (a\<lparr>store := s'\<rparr>))"
        unfolding handleCreateSuccess_def
        by (rule timers_cover_same [OF timers_cover_addNotification [OF st]]) simp_all
      with Pair Some assms show ?thesis
        by (simp add: handleCreateAccount_def timers_cover_checkUpcoming)
    qed
  qed
  with assms HandleCreateAccount show ?thesis by simp
next
  case (ConfirmReminder now)
  with assms show ?thesis
    by (auto simp: handleConfirmReminder_def run_notifications_cover split: option.splits)
next
  case RescheduleReminder
  with assms show ?thesis
    by (auto simp: handleRescheduleReminder_def run_notifications_cover split: option.splits)
next
  case DismissReminder
  with assms show ?thesis
    by (auto simp: handleDismissReminder_def run_notifications_cover split: option.splits)
next
  case (SosClick now)
  with assms show ?thesis by (simp add: timers_cover_addNotification)
next
  case (NavigateTo pg)
  then show ?thesis by (simp add: assms handleNavigate_def timers_cover_same [OF assms])
next
  case (FinishBooking d now now')
  have "timers_cover (finishBooking d now now' a)"
  proof (cases "bookAppointment d now (store a)")
    case (Inl e)
    with assms show ?thesis by (simp add: finishBooking_def)
  next
    case (Inr r)
    obtain ok s' where r: "r = (ok, s')" by (cases r)
    have st: "timers_cover (a\<lparr>store := s'\<rparr>)"
      by (rule timers_cover_same [OF assms]) simp_all
    have "timers_cover (onBookingComplete now' (a\<lparr>store := s'\<rparr>))"
      unfolding onBookingComplete_def
      by (rule timers_cover_same [OF timers_cover_addNotification [OF st]]) simp_all
    with st Inr r show ?thesis by (simp add: finishBooking_def)
  qed
  with assms FinishBooking show ?thesis by simp
next
  case (ProfileSave d now)
  have "timers_cover (handleSave d now a)"
  proof (cases "updatePatientDetails d (store a)")
    case (Inl e)
    with assms show ?thesis by (simp add: handleSave_def)
  next
    case (Inr r)
    obtain ok s' where r: "r = (ok, s')" by (cases r)
    have st: "timers_cover (a\<lparr>store := s'\<rparr>)"
      by (rule timers_cover_same [OF assms]) simp_all
    with Inr r show ?thesis by (simp add: handleSave_def timers_cover_addNotification)
  qed
  with assms ProfileSave show ?thesis by simp
next
  case (TimersFire t)
  with assms show ?thesis by (simp add: timers_cover_fireTimers)
qed (simp_all add: assms timers_cover_same [OF assms])

lemma timers_cover_run:
  "timers_cover a \<Longrightarrow> timers_cover (app_run newDate evs a)"
  unfolding app_run_def
  by (induction evs arbitrary: a) (simp_all add: timers_cover_step)

lemma example_events_run:
  "notifications (app_run example_newDate example_events
      (initial_app (example_store [] Map.empty))) =
   [\<lparr>note_id = 1500, message = ''SOS Alert Sent! A practitioner has been notified.''\<rparr>]"
  by (simp add: app_run_def example_events_def initial_app_def example_defs api_defs
      handleLogin_def login_def checkUpcomingAppointments_def upcomingReminder_def
      addNotification_def)

subsection \<open>The session marker through the events\<close>

lemma reminded_key_not_currentUser: "reminded_key i \<noteq> ''currentUser''"
  by (simp add: reminded_key_def)

lemma session_updateAppointmentStatus:
  "session (snd (updateAppointmentStatus i st s)) = session s"
  by (simp add: updateAppointmentStatus_def Let_def split: option.splits)

lemma session_bookAppointment:
  "bookAppointment d now s = Inr (ok, s') \<Longrightarrow> session s' = session s"
  by (auto simp: bookAppointment_def Let_def split: option.splits if_splits)

lemma marked_login:
  "marked_reminded s i \<Longrightarrow> marked_reminded (snd (login m pw s)) i"
  by (simp add: login_def marked_reminded_def reminded_key_not_currentUser split: option.splits)

lemma marked_createAccount:
  "marked_reminded s i \<Longrightarrow> marked_reminded (snd (createAccount f s)) i"
  by (simp add: createAccount_def marked_reminded_def reminded_key_not_currentUser Let_def
      split: option.splits)

lemma session_updatePatientDetails:
  "updatePatientDetails d s = Inr (ok, s') \<Longrightarrow> session s' = session s"
  by (auto simp: updatePatientDetails_def Let_def split: option.splits if_splits)

lemma marked_excluded:
  assumes "marked_reminded s (app_id b)"
  shows "upcomingReminder newDate now s \<noteq> Some b"
proof
  assume "upcomingReminder newDate now s = Some b"
  then have "eligible newDate now s b"
    by (auto simp: upcomingReminder_eligible find_Some_iff)
  with assms show False by (simp add: eligible_def marked_reminded_def)
qed

lemma marked_exec: "marked_reminded (store a) i \<Longrightarrow> marked_reminded (store (exec c a)) i"
  by (cases c)
     (simp_all add: marked_reminded_def session_updateAppointmentStatus addNotification_def
        handleNavigate_def)

lemma resolved_run_cleared:
  assumes "marked_reminded (store a) i \<or> SetItemReminded i \<in> set cs"
    and "cs \<noteq> []" and "last cs = SetReminderAppointment None"
  shows "resolved i (run cs a) \<and> reminderAppointment (run cs a) = None"
  using assms
proof (induction cs arbitrary: a)
  case Nil then show ?case by simp
next
  case (Cons c cs)
  show ?case
  proof (cases "cs = []")
    case True
    with Cons.prems show ?thesis
      by (auto simp: run_def resolved_def marked_reminded_def)
  next
    case False
    have m: "marked_reminded (store (exec c a)) i \<or> SetItemReminded i \<in> set cs"
      using Cons.prems(1) by (auto simp: marked_exec) (simp add: marked_reminded_def)
    from Cons.prems False have "last cs = SetReminderAppointment None" by simp
    from Cons.IH [OF m False this] show ?thesis by (simp add: run_def)
  qed
qed

lemma resolved_handlers:
  assumes "resolved i a"
  shows "resolved i (handleConfirmReminder now a)" "resolved i (handleRescheduleReminder a)"
    "resolved i (handleDismissReminder a)"
proof -
  from assms have m: "marked_reminded (store a) i" by (simp add: resolved_def)
  show "resolved i (handleConfirmReminder now a)"
    using assms resolved_run_cleared [of a i "confirm_body now r" for r] m
    by (auto simp: handleConfirmReminder_def confirm_body_def split: option.splits)
  show "resolved i (handleRescheduleReminder a)"
    using assms resolved_run_cleared [of a i "reschedule_body r" for r] m
    by (auto simp: handleRescheduleReminder_def reschedule_body_def split: option.splits)
  show "resolved i (handleDismissReminder a)"
    using assms resolved_run_cleared [of a i "dismiss_body r" for r] m
    by (auto simp: handleDismissReminder_def dismiss_body_def split: option.splits)
qed

lemma resolved_same:
  "resolved i a \<Longrightarrow> session (store b) = session (store a) \<Longrightarrow>
   reminderAppointment b = reminderAppointment a \<Longrightarrow> resolved i b"
  by (simp add: resolved_def marked_reminded_def)

lemma resolved_checkUpcoming:
  assumes "resolved i a"
  shows "resolved i (checkUpcomingAppointments newDate now a)"
proof (cases "upcomingReminder newDate now (store a)")
  case None
  with assms show ?thesis by (simp add: checkUpcomingAppointments_def)
next
  case (Some b)
  from assms have m: "marked_reminded (store a) i" by (simp add: resolved_def)
  have "app_id b \<noteq> i"
  proof
    assume "app_id b = i"
    with m marked_excluded [of "store a" b newDate now] Some show False by simp
  qed
  with m Some show ?thesis by (simp add: checkUpcomingAppointments_def resolved_def)
qed

lemma resolved_addNotification: "resolved i a \<Longrightarrow> resolved i (addNotification msg now a)"
  by (rule resolved_same) (simp_all add: addNotification_def)

lemma resolved_step:
  assumes "resolved i a"
  shows "resolved i (app_step newDate ev a)"
proof (cases ev)
  case Reload
  with assms show ?thesis
    by (simp add: resolved_def initial_app_def marked_reminded_def initializeDB_def
        split: option.splits)
next
  case (HandleLogin m pw now)
  have "resolved i (handleLogin newDate m pw now a)"
  proof (cases "login m pw (store a)")
    case (Pair res s')
    from assms have "marked_reminded (snd (login m pw (store a))) i"
      by (simp add: resolved_def marked_login)
    with Pair have m: "marked_reminded s' i" by simp
    from assms have r: "\<forall>b. reminderAppointment a = Some b \<longrightarrow> app_id b \<noteq> i"
      by (simp add: resolved_def)
    show ?thesis
    proof (cases res)
      case None
      with Pair m r show ?thesis by (simp add: handleLogin_def resolved_def)
    next
      case (Some u)
      from m r have "resolved i (a\<lparr>currentUser := Some u, authStatus := LoggedIn, store := s'\<rparr>)"
        by (simp add: resolved_def)
      with Pair Some show ?thesis by (simp add: handleLogin_def resolved_checkUpcoming)
    qed
  qed
  with assms HandleLogin show ?thesis by simp
next
  case (HandleCreateAccount f now now')
  have "resolved i (handleCreateAccount newDate f now now' a)"
  proof (cases "createAccount f (store a)")
    case (Pair res s')
    from assms have "marked_reminded (snd (createAccount f (store a))) i"
      by (simp add: resolved_def marked_createAccount)
    with Pair have m: "marked_reminded s' i" by simp
    from assms have r: "\<forall>b. reminderAppointment a = Some b \<longrightarrow> app_id b \<noteq> i"
      by (simp add: resolved_def)
    from m r have st: "resolved i (a\<lparr>store := s'\<rparr>)" by (simp add: resolved_def)
    show ?thesis
    proof (cases res)
      case None
      with Pair st assms show ?thesis by (simp add: handleCreateAccount_def)
    next
      case (Some u)
      have "resolved i (handleCreateSuccess u now (a\<lparr>store := s'\<rparr>))"
        unfolding handleCreateSuccess_def
        by (rule resolved_same [OF resolved_addNotification [OF st]]) simp_all
      with Pair Some assms show ?thesis
        by (simp add: handleCreateAccount_def resolved_checkUpcoming)
    qed
  qed
  with assms HandleCreateAccount show ?thesis by simp
next
  case (ConfirmReminder now)
  with assms show ?thesis by (simp add: resolved_handlers)
next
  case RescheduleReminder
  with assms show ?thesis by (simp add: resolved_handlers)
next
  case DismissReminder
  with assms show ?thesis by (simp add: resolved_handlers)
next
  case (SosClick now)
  with assms show ?thesis by (simp add: resolved_addNotification)
next
  case (NavigateTo pg)
  then show ?thesis by (simp add: assms handleNavigate_def resolved_same [OF assms])
next
  case (FinishBooking d now now')
  have "resolved i (finishBooking d now now' a)"
  proof (cases "bookAppointment d now (store a)")
    case (Inl e)
    with assms show ?thesis by (simp add: finishBooking_def)
  next
    case (Inr res)
    obtain ok s' where res: "res = (ok, s')" by (cases res)
    with Inr have "session s' = session (store a)" by (simp add: session_bookAppointment)
    then have st: "resolved i (a\<lparr>store := s'\<rparr>)"
      by (intro resolved_same [OF assms]) simp_all
    have "resolved i (onBookingComplete now' (a\<lparr>store := s'\<rparr>))"
      unfolding onBookingComplete_def
      by (rule resolved_same [OF resolved_addNotification [OF st]]) simp_all
    with st Inr res show ?thesis by (simp add: finishBooking_def)
  qed
  with assms FinishBooking show ?thesis by simp
next
  case (ProfileSave d now)
  have "resolved i (handleSave d now a)"
  proof (cases "updatePatientDetails d (store a)")
    case (Inl e)
    with assms show ?thesis by (simp add: handleSave_def)
  next
    case (Inr res)
    obtain ok s' where res: "res = (ok, s')" by (cases res)
    with Inr have "session s' = session (store a)" by (simp add: session_updatePatientDetails)
    then have st: "resolved i (a\<lparr>store := s'\<rparr>)"
      by (intro resolved_same [OF assms]) simp_all
    with Inr res show ?thesis by (simp add: handleSave_def resolved_addNotification)
  qed
  with assms ProfileSave show ?thesis by simp
next
  case (TimersFire t)
  then show ?thesis by (simp add: fireTimers_def resolved_same [OF assms])
qed (simp_all add: assms resolved_same [OF assms])

lemma resolved_app_run: "resolved i a \<Longrightarrow> resolved i (app_run newDate evs a)"
  unfolding app_run_def
  by (induction evs arbitrary: a) (simp_all add: resolved_step)

lemma marked_before_cleared:
  assumes "reminderAppointment a = Some r"
    and "body \<in> {confirm_body now r, reschedule_body r, dismiss_body r}"
  shows "\<forall>x \<in> set (states_after body a).
           reminderAppointment x = None \<longrightarrow> marked_reminded (store x) (app_id r)"
  using assms
  by (auto simp: confirm_body_def reschedule_body_def dismiss_body_def marked_reminded_def
      addNotification_def handleNavigate_def)

lemma example_reminder_shown_eq:
  "example_reminder_shown =
     \<lparr>authStatus = LoggedIn, currentUser = Some (''Mr Guna'', ''1234567890''),
      currentPage = Home, previousPage = Home, isChatbotOpen = False, notifications = [],
      reminderAppointment = Some (example_appointment 5 ''2025-09-02'' (Some Upcoming)),
      timers = [], store = example_store example_two example_session\<rparr>"
  by (simp add: example_reminder_shown_def example_login_def app_run_def initial_app_def
      handleLogin_def login_def checkUpcomingAppointments_def upcomingReminder_def
      example_two_def example_defs api_defs replace_hyphens_def date_gt_def reminded_key_5)

lemma example_dismissed_eq:
  "run (dismiss_body (example_appointment 5 ''2025-09-02'' (Some Upcoming))) example_reminder_shown =
     \<lparr>authStatus = LoggedIn, currentUser = Some (''Mr Guna'', ''1234567890''),
      currentPage = Home, previousPage = Home, isChatbotOpen = False, notifications = [],
      reminderAppointment = None,
      timers = [], store = example_store example_two (example_session(''reminded_5'' \<mapsto> ''true''))\<rparr>"
  by (simp add: example_reminder_shown_eq run_def dismiss_body_def reminded_key_5)
     (simp add: example_store_def example_appointment_def reminded_key_5)

lemma example_next_login:
  "reminderAppointment (app_run example_newDate (Reload # example_login)
      (run (dismiss_body (example_appointment 5 ''2025-09-02'' (Some Upcoming)))
         example_reminder_shown)) =
   Some (example_appointment 7 ''2025-09-02'' (Some Upcoming))"
  unfolding example_dismissed_eq
  by (simp add: example_login_def app_run_def initial_app_def initializeDB_def
      handleLogin_def login_def checkUpcomingAppointments_def upcomingReminder_def
      example_two_def example_defs api_defs replace_hyphens_def date_gt_def reminded_key_5
      reminded_key_7)

subsection \<open>The scheduling page\<close>

lemma bookAppointment_result:
  assumes "bookAppointment d now s = Inr (ok, s')"
  shows "if ok then getAppointments s' = getAppointments s @ [newAppointmentWithMeta d now]
         else s' = s"
  using assms
  by (auto simp: bookAppointment_def api_defs Let_def split: option.splits if_splits)

lemma handler_store:
  "snd (handler isoDate ev (p, s)) \<noteq> s \<Longrightarrow> \<exists>now stamp. ev = FinishBookingClick now stamp"
  by (cases ev) simp_all

lemma sched_inv_step:
  assumes "sched_inv p"
  shows "sched_inv (fst (sched_step isoDate ev (p, s)))"
proof (cases "enabled ev p")
  case False
  with assms show ?thesis by (simp add: sched_step_def)
next
  case True
  then have "sched_inv (fst (handler isoDate ev (p, s)))"
    using assms
    by (cases ev)
       (auto simp: sched_inv_def toggleTherapy_def handleNextStep_def handleBookNow_def
          handleConfirmBooking_def handleFinishBooking_def initial_sched_def Let_def
          split: sum.splits prod.splits)
  with True show ?thesis by (simp add: sched_step_def)
qed

lemma written_step:
  assumes "sched_inv p" and "written_nonempty s0 s"
  shows "written_nonempty s0 (snd (sched_step isoDate ev (p, s)))"
proof (cases "enabled ev p \<and> (\<exists>now stamp. ev = FinishBookingClick now stamp)")
  case False
  then have "snd (sched_step isoDate ev (p, s)) = s"
    using handler_store [of isoDate ev p s] by (auto simp: sched_step_def)
  with assms show ?thesis by simp
next
  case True
  then obtain now stamp where ev: "ev = FinishBookingClick now stamp" and en: "enabled ev p"
    by blast
  from en ev have "step p = 3" by simp
  with assms(1) have ne: "selectedTherapies p \<noteq> []" by (simp add: sched_inv_def)
  let ?d = "\<lparr>therapies = selectedTherapies p, date = selectedDate p, time = selectedTime p,
             bookedAt = stamp, centerRating = Some (rating p)\<rparr>"
  show ?thesis
  proof (cases "bookAppointment ?d now s")
    case (Inl e)
    with ev en assms show ?thesis
      by (simp add: sched_step_def handleFinishBooking_def Let_def)
  next
    case (Inr res)
    obtain ok s' where res: "res = (ok, s')" by (cases res)
    from bookAppointment_result [of ?d now s ok s'] Inr res
    have "written_nonempty s0 s'"
      using assms(2) ne
      by (auto simp: written_nonempty_def newAppointmentWithMeta_def split: if_splits)
    with ev en Inr res show ?thesis
      by (simp add: sched_step_def handleFinishBooking_def Let_def)
  qed
qed

lemma sched_run_inv:
  assumes "sched_inv p" and "written_nonempty s0 s"
  shows "sched_inv (fst (sched_run isoDate evs (p, s))) \<and>
         written_nonempty s0 (snd (sched_run isoDate evs (p, s)))"
  using assms
proof (induction evs arbitrary: p s)
  case Nil
  then show ?case by (simp add: sched_run_def)
next
  case (Cons ev evs)
  obtain p' s' where st: "sched_step isoDate ev (p, s) = (p', s')"
    by (cases "sched_step isoDate ev (p, s)")
  from Cons.prems have "sched_inv p'" "written_nonempty s0 s'"
    using sched_inv_step [of p isoDate ev s] written_step [of p s0 s isoDate ev] st by simp_all
  from Cons.IH [OF this] st show ?case by (simp add: sched_run_def)
qed

lemma empty_selection_no_write:
  assumes "sched_inv p" and "selectedTherapies p = []"
  shows "snd (sched_step isoDate ev (p, s)) = s"
proof -
  from assms have "step p = 1" by (auto simp: sched_inv_def)
  then have "\<not> (enabled ev p \<and> (\<exists>now stamp. ev = FinishBookingClick now stamp))" by auto
  then show ?thesis
    using handler_store [of isoDate ev p s] by (auto simp: sched_step_def)
qed

lemma empty_selection_no_alert:
  assumes "sched_inv p" and "selectedTherapies p = []"
  shows "alerts (fst (sched_step isoDate ev (p, s))) = []"
proof -
  from assms have st: "step p = 1" and al: "alerts p = []" by (auto simp: sched_inv_def)
  show ?thesis
  proof (cases "enabled ev p")
    case False
    with al show ?thesis by (simp add: sched_step_def)
  next
    case True
    with st al assms(2) show ?thesis
      by (cases ev)
         (simp_all add: sched_step_def toggleTherapy_def handleNextStep_def
            handleConfirmBooking_def initial_sched_def)
  qed
qed

lemma example_booking_run:
  "sched_run example_isoDate example_booking (initial_sched, example_store [] example_session) =
     (\<lparr>step = 3, selectedTherapies = [hd ALL_THERAPIES], selectedDate = ''2025-09-02'',
       selectedTime = ''10:00am'', rating = 4, showConfirmation = False, isBooking = False,
       alerts = []\<rparr>,
      example_store [newAppointmentWithMeta example_draft 2000] example_session)"
  by (simp add: sched_run_def example_booking_def sched_step_def initial_sched_def
      toggleTherapy_def handleNextStep_def handleBookNow_def handleConfirmBooking_def
      handleFinishBooking_def bookAppointment_def newAppointmentWithMeta_def
      example_isoDate_def example_draft_def time_slots_def ALL_THERAPIES_def
      example_store_def example_session_def defaultUser_def api_defs Let_def)

section \<open>The appointment repository\<close>

text \<open>
  C4. For every appointment id that is not an id of the current user's collection,
  \<^verbatim>\<open>updateAppointmentStatus\<close> returns the failure result \<open>False\<close> (the code's NotFound) and
  the stores are what they were: no user record is written.
\<close>

theorem updateStatus_absent_id_NotFound:
  "appointmentId \<notin> app_id ` set (getAppointments s) \<Longrightarrow>
   updateAppointmentStatus appointmentId newStatus s = (False, s)"
  by (auto simp: updateAppointmentStatus_def getAppointments_def Let_def
      split: option.splits dest!: findIndex_Some)

theorem updateStatus_absent_id_NotFound_witness:
  "7 \<notin> app_id ` set (getAppointments
      (example_store [example_appointment 1 ''2025-09-02'' (Some Upcoming)] example_session)) \<and>
   updateAppointmentStatus 7 Confirmed
      (example_store [example_appointment 1 ''2025-09-02'' (Some Upcoming)] example_session) =
   (False, example_store [example_appointment 1 ''2025-09-02'' (Some Upcoming)] example_session)"
  using updateStatus_absent_id_NotFound [of 7
      "example_store [example_appointment 1 ''2025-09-02'' (Some Upcoming)] example_session" Confirmed]
  by (simp add: example_defs api_defs)

text \<open>
  C7. For every appointment id of the current user's collection, a call of
  \<^verbatim>\<open>updateAppointmentStatus\<close> with \<^verbatim>\<open>'confirmed'\<close> succeeds, and a second call on the
  resulting stores succeeds and leaves them exactly as the first call left them.
\<close>

theorem updateStatus_confirmed_idempotent:
  assumes "appointmentId \<in> app_id ` set (getAppointments s)"
  shows "fst (updateAppointmentStatus appointmentId Confirmed s) \<and>
         updateAppointmentStatus appointmentId Confirmed
           (snd (updateAppointmentStatus appointmentId Confirmed s)) =
         (True, snd (updateAppointmentStatus appointmentId Confirmed s))"
proof -
  let ?m = "the (getCurrentUserMobileNumber s)"
  from assms have ne: "getAppointments s \<noteq> []" by auto
  define apps where "apps = getAppointments s"
  from getAppointments_nonempty [OF ne] obtain u
    where t: "truthy (getCurrentUserMobileNumber s)"
      and u: "parse_users s ?m = Some u" and apps: "appointments u = Some apps"
    unfolding apps_def by blast
  have g: "getAppointments s = apps" by (simp add: apps_def)
  from assms g obtain i where i: "findIndex (\<lambda>app. app_id app = appointmentId) apps = Some i"
    by (cases "findIndex (\<lambda>app. app_id app = appointmentId) apps") (auto simp: findIndex_None_iff)
  then have len: "i < length apps" by (auto dest: findIndex_Some)
  let ?apps' = "apps[i := (apps ! i)\<lparr>status := Some Confirmed\<rparr>]"
  let ?s1 = "s\<lparr>users_item := Some ((parse_users s)(?m \<mapsto> u\<lparr>appointments := Some ?apps'\<rparr>))\<rparr>"
  have 1: "updateAppointmentStatus appointmentId Confirmed s = (True, ?s1)"
    using t u apps i by (simp add: updateAppointmentStatus_def Let_def)
  have c: "getCurrentUserMobileNumber ?s1 = getCurrentUserMobileNumber s"
    by (simp add: getCurrentUserMobileNumber_def)
  have p: "parse_users ?s1 = (parse_users s)(?m \<mapsto> u\<lparr>appointments := Some ?apps'\<rparr>)"
    by (simp add: parse_users_def)
  have i': "findIndex (\<lambda>app. app_id app = appointmentId) ?apps' = Some i"
    using i by (simp add: findIndex_status_update)
  have 2: "updateAppointmentStatus appointmentId Confirmed ?s1 = (True, ?s1)"
    using t i' len by (simp add: updateAppointmentStatus_def Let_def c p)
  from 1 2 show ?thesis by simp
qed

theorem updateStatus_confirmed_idempotent_witness:
  "1 \<in> app_id ` set (getAppointments
      (example_store [example_appointment 1 ''2025-09-02'' (Some Upcoming)] example_session)) \<and>
   getAppointments (snd (updateAppointmentStatus 1 Confirmed (snd (updateAppointmentStatus 1 Confirmed
      (example_store [example_appointment 1 ''2025-09-02'' (Some Upcoming)] example_session))))) =
   [example_appointment 1 ''2025-09-02'' (Some Confirmed)]"
  using updateStatus_confirmed_idempotent [of 1
      "example_store [example_appointment 1 ''2025-09-02'' (Some Upcoming)] example_session"]
  by (simp add: example_defs api_defs updateAppointmentStatus_def)




section \<open>The reminder scheduler\<close>

text \<open>
  C1. The reminder selection returns at most one appointment (its result is an
  \<open>option\<close>). It returns none exactly when no appointment of the current user's list is
  eligible, and it returns \<open>a\<close> exactly when \<open>a\<close> stands at a position of the list, is
  eligible (status \<^verbatim>\<open>upcoming\<close>, date strictly after now, no session marker), and no
  appointment at an earlier position is eligible: the first match in list order.
\<close>

theorem reminder_selection_first_match:
  "(upcomingReminder newDate now s = None \<longleftrightarrow>
      (\<forall>a \<in> set (getAppointments s). \<not> eligible newDate now s a)) \<and>
   (upcomingReminder newDate now s = Some a \<longleftrightarrow>
      (\<exists>i < length (getAppointments s).
          getAppointments s ! i = a \<and> eligible newDate now s a \<and>
          (\<forall>j < i. \<not> eligible newDate now s (getAppointments s ! j))))"
  unfolding upcomingReminder_eligible
  by (auto simp: find_None_iff find_Some_iff)

theorem reminder_selection_first_match_witness:
  "upcomingReminder example_newDate 1000 (example_store example_list example_session) =
     Some (example_appointment 1 ''2025-09-02'' (Some Upcoming))"
proof -
  let ?s = "example_store example_list example_session"
  let ?a = "example_appointment 1 ''2025-09-02'' (Some Upcoming)"
  have g: "getAppointments ?s = example_list"
    by (simp add: example_defs api_defs)
  have e1: "eligible example_newDate 1000 ?s ?a"
    by (simp add: eligible_def example_defs replace_hyphens_def reminded_key_1)
  have e2: "\<not> eligible example_newDate 1000 ?s (example_appointment 2 ''2025-08-31'' (Some Upcoming))"
    by (simp add: eligible_def example_defs replace_hyphens_def)
  have "\<exists>i < length (getAppointments ?s).
          getAppointments ?s ! i = ?a \<and> eligible example_newDate 1000 ?s ?a \<and>
          (\<forall>j < i. \<not> eligible example_newDate 1000 ?s (getAppointments ?s ! j))"
    unfolding g using e1 e2 by (intro exI [of _ 1]) (simp add: example_list_def)
  with reminder_selection_first_match [of example_newDate 1000 ?s ?a] show ?thesis by blast
qed

text \<open>
  C6 (as amended). The reminder selection, the only operation that inspects the status,
  does not treat an absent status as \<^verbatim>\<open>upcoming\<close>: an appointment without a status field
  is never selected.
\<close>

theorem absent_status_never_selected:
  "status a = None \<Longrightarrow> upcomingReminder newDate now s \<noteq> Some a"
  by (auto simp: upcomingReminder_def find_Some_iff)

theorem absent_status_never_selected_witness:
  "status (example_appointment 1 ''2025-09-02'' None) = None \<and>
   upcomingReminder example_newDate 1000
     (example_store [example_appointment 1 ''2025-09-02'' None] example_session) \<noteq>
   Some (example_appointment 1 ''2025-09-02'' None)"
  using absent_status_never_selected [of "example_appointment 1 ''2025-09-02'' None"
      example_newDate 1000
      "example_store [example_appointment 1 ''2025-09-02'' None] example_session"]
  by (simp add: example_appointment_def)

text \<open>
  The specification makes an appointment without a status eligible. The
  selection compares the field with \<^verbatim>\<open>'upcoming'\<close> by \<^verbatim>\<open>===\<close>: of two lists that differ
  only in the status of their one appointment, dated in the future and not marked, the
  list with the absent status yields no reminder and the list with \<^verbatim>\<open>upcoming\<close> yields
  the appointment.
\<close>

theorem absent_status_not_selected_counterexample:
  "upcomingReminder example_newDate 1000
     (example_store [example_appointment 1 ''2025-09-02'' None] example_session) = None \<and>
   upcomingReminder example_newDate 1000
     (example_store [example_appointment 1 ''2025-09-02'' (Some Upcoming)] example_session) =
     Some (example_appointment 1 ''2025-09-02'' (Some Upcoming))"
  by (simp add: upcomingReminder_def example_defs api_defs replace_hyphens_def date_gt_def
      reminded_key_1)

section \<open>The notification queue\<close>

text \<open>
  C9. In every state that the events of the application reach, a notification pushed at
  the instant \<open>now\<close> is appended with the id \<open>now\<close> and gets a timer due at \<open>now + 3000\<close>;
  when the clock reaches \<open>t\<close> and the due timers run, the entries that stay are exactly
  those pushed less than \<open>3000\<close> before \<open>t\<close>, so each entry goes \<open>3000\<close> after its
  insertion. Removing an id a second time changes nothing, and removing an id that no
  entry bears leaves the queue as it is.
\<close>

theorem notification_expiry:
  "(let a = app_run newDate evs (initial_app s); a' = addNotification msg now a in
      notifications a' = notifications a @ [\<lparr>note_id = now, message = msg\<rparr>] \<and>
      (now + 3000, now) \<in> set (timers a') \<and>
      (\<forall>t. notifications (fireTimers t a') =
             filter (\<lambda>n. t < note_id n + 3000) (notifications a'))) \<and>
   expire i (expire i ns) = expire i ns \<and>
   ((\<forall>n \<in> set ns. note_id n \<noteq> i) \<longrightarrow> expire i ns = ns)"
proof -
  have c: "timers_cover (addNotification msg now (app_run newDate evs (initial_app s)))"
    by (intro timers_cover_addNotification timers_cover_run timers_cover_initial)
  have 1: "expire i (expire i ns) = expire i ns" by (simp add: expire_def)
  have 2: "(\<forall>n \<in> set ns. note_id n \<noteq> i) \<longrightarrow> expire i ns = ns" by (simp add: expire_def)
  show ?thesis
    using fireTimers_notifications [OF c] 1 2
    by (simp add: Let_def) (simp add: addNotification_def)
qed

theorem notification_expiry_witness:
  "notifications (fireTimers 4600 (addNotification ''Appointment Confirmed!'' 2000
      (app_run example_newDate example_events (initial_app (example_store [] Map.empty))))) =
     [\<lparr>note_id = 2000, message = ''Appointment Confirmed!''\<rparr>] \<and>
   notifications (fireTimers 5000 (addNotification ''Appointment Confirmed!'' 2000
      (app_run example_newDate example_events (initial_app (example_store [] Map.empty))))) = [] \<and>
   expire 7 [\<lparr>note_id = 2000, message = ''Appointment Confirmed!''\<rparr>] =
     [\<lparr>note_id = 2000, message = ''Appointment Confirmed!''\<rparr>]"
  using notification_expiry [of example_newDate example_events "example_store [] Map.empty"
      "''Appointment Confirmed!''" 2000 7 "[\<lparr>note_id = 2000, message = ''Appointment Confirmed!''\<rparr>]"]
  by (simp add: Let_def example_events_run)

text \<open>
  C10. The id of a notification is the timestamp of the push: two notifications pushed at
  the same instant bear the same id, and one expiry of that id removes both.
\<close>

theorem same_millisecond_same_id:
  "notifications (addNotification m2 now (addNotification m1 now a)) =
     notifications a @ [\<lparr>note_id = now, message = m1\<rparr>, \<lparr>note_id = now, message = m2\<rparr>] \<and>
   expire now (notifications (addNotification m2 now (addNotification m1 now a))) =
     expire now (notifications a)"
  by (simp add: addNotification_def expire_def)

theorem same_millisecond_same_id_witness:
  "expire 1500 (notifications (addNotification ''Profile saved successfully!'' 1500
      (addNotification ''SOS Alert Sent! A practitioner has been notified.'' 1500
         (initial_app (example_store [] example_session))))) = []"
  using same_millisecond_same_id [of "''Profile saved successfully!''" 1500
      "''SOS Alert Sent! A practitioner has been notified.''"
      "initial_app (example_store [] example_session)"]
  by (simp add: initial_app_def expire_def)

section \<open>Resolving a reminder\<close>

text \<open>
  C2. Let a reminder for the appointment \<open>r\<close> be on screen. Each of the three handlers
  (confirm, reschedule, dismiss) runs its statements; in every state in which the
  reminder is cleared the session marker of \<open>r\<close> is already written, whatever
  \<^verbatim>\<open>updateAppointmentStatus\<close> did; the handler ends with the reminder cleared; and after
  any further events of the application (a reload of the tab and a new login among
  them) the marker is still there, the reminder selection returns no appointment with
  the id of \<open>r\<close>, and no such appointment is the reminder on screen.
\<close>

theorem resolution_marks_reminded:
  assumes "reminderAppointment a = Some r"
    and "body \<in> {confirm_body now r, reschedule_body r, dismiss_body r}"
  shows "handleConfirmReminder now a = run (confirm_body now r) a \<and>
         handleRescheduleReminder a = run (reschedule_body r) a \<and>
         handleDismissReminder a = run (dismiss_body r) a \<and>
         (\<forall>x \<in> set (states_after body a).
            reminderAppointment x = None \<longrightarrow> marked_reminded (store x) (app_id r)) \<and>
         reminderAppointment (run body a) = None \<and>
         (\<forall>evs now' b.
            marked_reminded (store (app_run newDate evs (run body a))) (app_id r) \<and>
            (app_id b = app_id r \<longrightarrow>
               upcomingReminder newDate now' (store (app_run newDate evs (run body a))) \<noteq> Some b \<and>
               reminderAppointment (app_run newDate evs (run body a)) \<noteq> Some b))"
proof -
  have h: "handleConfirmReminder now a = run (confirm_body now r) a \<and>
         handleRescheduleReminder a = run (reschedule_body r) a \<and>
         handleDismissReminder a = run (dismiss_body r) a"
    using assms(1)
    by (simp add: handleConfirmReminder_def handleRescheduleReminder_def handleDismissReminder_def)
  have c: "resolved (app_id r) (run body a) \<and> reminderAppointment (run body a) = None"
    using assms(2)
    by (intro resolved_run_cleared)
       (auto simp: confirm_body_def reschedule_body_def dismiss_body_def)
  have later: "marked_reminded (store (app_run newDate evs (run body a))) (app_id r) \<and>
            (app_id b = app_id r \<longrightarrow>
               upcomingReminder newDate now' (store (app_run newDate evs (run body a))) \<noteq> Some b \<and>
               reminderAppointment (app_run newDate evs (run body a)) \<noteq> Some b)" for evs now' b
  proof -
    from c have "resolved (app_id r) (app_run newDate evs (run body a))"
      by (simp add: resolved_app_run)
    then show ?thesis
      using marked_excluded [of "store (app_run newDate evs (run body a))" b newDate now']
      by (auto simp: resolved_def)
  qed
  from h marked_before_cleared [OF assms] c later show ?thesis by blast
qed

theorem resolution_marks_reminded_witness:
  "reminderAppointment example_reminder_shown =
     Some (example_appointment 5 ''2025-09-02'' (Some Upcoming)) \<and>
   reminderAppointment (app_run example_newDate (Reload # example_login)
      (run (dismiss_body (example_appointment 5 ''2025-09-02'' (Some Upcoming)))
         example_reminder_shown)) =
     Some (example_appointment 7 ''2025-09-02'' (Some Upcoming)) \<and>
   marked_reminded (store (app_run example_newDate (Reload # example_login)
      (run (dismiss_body (example_appointment 5 ''2025-09-02'' (Some Upcoming)))
         example_reminder_shown))) 5 \<and>
   fst (updateAppointmentStatus 5 Confirmed (store example_stale_reminder)) = False \<and>
   marked_reminded (store (handleConfirmReminder 1000 example_stale_reminder)) 5"
proof -
  let ?r = "example_appointment 5 ''2025-09-02'' (Some Upcoming)"
  have 1: "reminderAppointment example_reminder_shown = Some ?r"
    by (simp add: example_reminder_shown_eq)
  have 2: "dismiss_body ?r \<in> {confirm_body 1000 ?r, reschedule_body ?r, dismiss_body ?r}"
    by simp
  have 3: "app_id ?r = 5" by (simp add: example_appointment_def)
  from resolution_marks_reminded [OF 1 2, of example_newDate] 3
  have d: "marked_reminded (store (app_run example_newDate (Reload # example_login)
      (run (dismiss_body ?r) example_reminder_shown))) 5"
    by simp
  have 4: "reminderAppointment example_stale_reminder = Some ?r"
    by (simp add: example_stale_reminder_def)
  have 5: "confirm_body 1000 ?r \<in> {confirm_body 1000 ?r, reschedule_body ?r, dismiss_body ?r}"
    by simp
  from resolution_marks_reminded [OF 4 5, of example_newDate] 3
  have "marked_reminded (store (app_run example_newDate []
      (handleConfirmReminder 1000 example_stale_reminder))) 5"
    by simp
  then have c: "marked_reminded (store (handleConfirmReminder 1000 example_stale_reminder)) 5"
    by (simp add: app_run_def)
  have f: "fst (updateAppointmentStatus 5 Confirmed (store example_stale_reminder)) = False"
    by (simp add: example_stale_reminder_def initial_app_def updateAppointmentStatus_def
        example_defs api_defs)
  from 1 example_next_login d f c show ?thesis by simp
qed

text \<open>
  C3. The reminder on screen is for the appointment with the id \<open>5\<close>, and the stored
  collection of the current user is empty. \<^verbatim>\<open>updateAppointmentStatus\<close> reports the failure
  and writes nothing; \<^verbatim>\<open>handleConfirmReminder\<close> drops that result and still tells the user
  that the appointment is confirmed.
\<close>

theorem confirm_absent_id_reports_confirmed:
  "updateAppointmentStatus 5 Confirmed (store example_stale_reminder) =
     (False, store example_stale_reminder) \<and>
   notifications (handleConfirmReminder 1000 example_stale_reminder) =
     [\<lparr>note_id = 1000, message = ''Appointment Confirmed!''\<rparr>] \<and>
   getAppointments (store (handleConfirmReminder 1000 example_stale_reminder)) = []"
  by (simp add: example_stale_reminder_def initial_app_def handleConfirmReminder_def run_def
      confirm_body_def updateAppointmentStatus_def addNotification_def example_defs api_defs)

section \<open>Validation by the scheduling page\<close>

text \<open>
  C8 (as amended). A draft without a therapy does not reach \<^verbatim>\<open>bookAppointment\<close> from the
  scheduling page, its only caller, and the page says nothing about it. In every state
  that the page reaches from its initial state: while no therapy is selected,
  \<^verbatim>\<open>handleNextStep\<close> leaves the state as it is, no alert has been shown, and no event of
  the page changes the store or shows an alert, so no record is written; and every
  appointment of the current user that the page has added to the store has a non-empty
  list of therapies.
\<close>

theorem empty_therapies_never_booked:
  "(selectedTherapies (fst (sched_run isoDate evs (initial_sched, s0))) = [] \<longrightarrow>
      handleNextStep (fst (sched_run isoDate evs (initial_sched, s0))) =
        fst (sched_run isoDate evs (initial_sched, s0)) \<and>
      alerts (fst (sched_run isoDate evs (initial_sched, s0))) = [] \<and>
      (\<forall>ev. snd (sched_step isoDate ev (sched_run isoDate evs (initial_sched, s0))) =
            snd (sched_run isoDate evs (initial_sched, s0)) \<and>
          alerts (fst (sched_step isoDate ev (sched_run isoDate evs (initial_sched, s0)))) = [])) \<and>
   (\<forall>a \<in> set (getAppointments (snd (sched_run isoDate evs (initial_sched, s0)))).
      a \<in> set (getAppointments s0) \<or> therapies a \<noteq> [])"
proof -
  obtain p s where ps: "sched_run isoDate evs (initial_sched, s0) = (p, s)"
    by (cases "sched_run isoDate evs (initial_sched, s0)")
  have "sched_inv initial_sched" by (simp add: sched_inv_def initial_sched_def)
  moreover have "written_nonempty s0 s0" by (simp add: written_nonempty_def)
  ultimately have inv: "sched_inv p" and w: "written_nonempty s0 s"
    using sched_run_inv [of initial_sched s0 s0 isoDate evs] ps by simp_all
  have "selectedTherapies p = [] \<longrightarrow> handleNextStep p = p"
    by (simp add: handleNextStep_def)
  moreover have "selectedTherapies p = [] \<longrightarrow> alerts p = []"
    using inv by (auto simp: sched_inv_def)
  moreover have "selectedTherapies p = [] \<longrightarrow> (\<forall>ev. snd (sched_step isoDate ev (p, s)) = s)"
    using empty_selection_no_write [OF inv] by blast
  moreover have "selectedTherapies p = [] \<longrightarrow>
      (\<forall>ev. alerts (fst (sched_step isoDate ev (p, s))) = [])"
    using empty_selection_no_alert [OF inv] by blast
  ultimately show ?thesis
    using w unfolding ps written_nonempty_def by simp
qed

theorem empty_therapies_never_booked_witness:
  "selectedTherapies (fst (sched_run example_isoDate []
       (initial_sched, example_store [] example_session))) = [] \<and>
   sched_step example_isoDate (FinishBookingClick 2000 ''2025-09-01T09:00:00.000Z'')
          (sched_run example_isoDate [] (initial_sched, example_store [] example_session)) =
     (initial_sched, example_store [] example_session) \<and>
   alerts (fst (sched_step example_isoDate NextStep
          (sched_run example_isoDate [] (initial_sched, example_store [] example_session)))) = [] \<and>
   getAppointments (snd (sched_run example_isoDate example_booking
       (initial_sched, example_store [] example_session))) =
     [newAppointmentWithMeta example_draft 2000] \<and>
   therapies (newAppointmentWithMeta example_draft 2000) \<noteq> []"
proof -
  have 1: "selectedTherapies (fst (sched_run example_isoDate []
       (initial_sched, example_store [] example_session))) = []"
    by (simp add: sched_run_def initial_sched_def)
  have 2: "sched_run example_isoDate [] (initial_sched, example_store [] example_session) =
      (initial_sched, example_store [] example_session)"
    by (simp add: sched_run_def)
  have 3: "getAppointments (snd (sched_run example_isoDate example_booking
       (initial_sched, example_store [] example_session))) =
     [newAppointmentWithMeta example_draft 2000]"
    by (simp add: example_booking_run) (simp add: example_store_def example_session_def api_defs)
  have 4: "getAppointments (example_store [] example_session) = []"
    by (simp add: example_store_def example_session_def api_defs)
  have 5: "sched_step example_isoDate (FinishBookingClick 2000 ''2025-09-01T09:00:00.000Z'')
          (initial_sched, example_store [] example_session) =
     (initial_sched, example_store [] example_session)"
    by (simp add: sched_step_def initial_sched_def)
  from empty_therapies_never_booked [of example_isoDate "[]" "example_store [] example_session"] 1
  have a: "alerts (fst (sched_step example_isoDate NextStep
          (sched_run example_isoDate [] (initial_sched, example_store [] example_session)))) = []"
    by blast
  from empty_therapies_never_booked [of example_isoDate example_booking
      "example_store [] example_session"]
  have b: "therapies (newAppointmentWithMeta example_draft 2000) \<noteq> []"
    unfolding 3 4 by simp
  from 1 5 a 3 b show ?thesis unfolding 2 by simp
qed

text \<open>
  The specification has the attempt rejected with \<^verbatim>\<open>ValidationFailed\<close>. Nothing in the code
  does that. On the page with no therapy selected, \<^verbatim>\<open>handleNextStep\<close> has no other branch:
  the state stays as it is and no alert is shown. And \<^verbatim>\<open>bookAppointment\<close> checks nothing:
  called with a draft that has no therapy, it stores the appointment and reports success.
\<close>

theorem empty_therapies_not_rejected_counterexample:
  "sched_step example_isoDate NextStep (initial_sched, example_store [] example_session) =
     (initial_sched, example_store [] example_session) \<and>
   handleNextStep initial_sched = initial_sched \<and>
   alerts (handleNextStep initial_sched) = [] \<and>
   bookAppointment (example_draft\<lparr>therapies := []\<rparr>) 2000 (example_store [] example_session) =
   Inr (True, example_store [newAppointmentWithMeta (example_draft\<lparr>therapies := []\<rparr>) 2000]
                example_session)"
  by (simp add: sched_step_def handleNextStep_def initial_sched_def bookAppointment_def
      newAppointmentWithMeta_def example_defs api_defs Let_def)

end
